theory Spec2Isabelle
  imports Complex_Main "HOL-Library.Multiset" "HOL-Library.Sublist"
begin

section \<open>JavaScript values\<close>

text \<open>
  The handlers of \<^verbatim>\<open>src/index.js\<close> receive what \<^verbatim>\<open>express.json()\<close> parsed from
  the request: any JSON value may stand where the frontend is expected to send an object
  or an array. \<open>JUndefined\<close> is the value of a property that is not there. Numbers are
  the parsed numerals; the handlers test them against zero and pass them on, nothing
  else.
\<close>

datatype jsval =
    JUndefined
  | JNull
  | JBool bool
  | JNum rat
  | JStr string
  | JArr "jsval list"
  | JObj "(string \<times> jsval) list"

text \<open>\<^verbatim>\<open>!v\<close> is \<open>\<not> truthy v\<close>.\<close>

fun truthy :: "jsval \<Rightarrow> bool" where
  "truthy JUndefined = False"
| "truthy JNull = False"
| "truthy (JBool b) = b"
| "truthy (JNum n) = (n \<noteq> 0)"
| "truthy (JStr s) = (s \<noteq> [])"
| "truthy (JArr xs) = True"
| "truthy (JObj fs) = True"

text \<open>
  \<^verbatim>\<open>v.k\<close> for the property names the handlers read (\<^verbatim>\<open>phone\<close>, \<^verbatim>\<open>name\<close>,
  \<^verbatim>\<open>address\<close>, \<^verbatim>\<open>price\<close>, \<^verbatim>\<open>length\<close>): reading a property of \<^verbatim>\<open>undefined\<close> or
  \<^verbatim>\<open>null\<close> throws a TypeError (\<open>None\<close>); every other value answers, with
  \<^verbatim>\<open>undefined\<close> when it has no such property.
\<close>

fun js_get :: "jsval \<Rightarrow> string \<Rightarrow> jsval option" where
  "js_get JUndefined k = None"
| "js_get JNull k = None"
| "js_get (JBool b) k = Some JUndefined"
| "js_get (JNum n) k = Some JUndefined"
| "js_get (JStr s) k = Some (if k = ''length'' then JNum (of_nat (length s)) else JUndefined)"
| "js_get (JArr xs) k = Some (if k = ''length'' then JNum (of_nat (length xs)) else JUndefined)"
| "js_get (JObj fs) k = Some (case map_of fs k of Some v \<Rightarrow> v | None \<Rightarrow> JUndefined)"

text \<open>
  \<^verbatim>\<open>const { customer, items, total, paymentMethod } = req.body\<close>: the body is the
  parsed object, a field that is absent reads as \<^verbatim>\<open>undefined\<close>.
\<close>

definition body_field :: "(string \<times> jsval) list \<Rightarrow> string \<Rightarrow> jsval" where
  "body_field body k = (case map_of body k of Some v \<Rightarrow> v | None \<Rightarrow> JUndefined)"

section \<open>The relational store\<close>

text \<open>
  The tables and the columns are those the SQL texts of the source name. A column holds
  the value that was bound to it.
\<close>

record user_row =
  u_phone :: jsval
  u_name :: jsval
  u_city :: jsval

record order_row =
  o_id :: nat
  o_user_phone :: jsval
  o_total_amount :: jsval
  o_status :: jsval
  o_payment_method :: jsval
  o_shipping_address :: jsval
  o_created_at :: nat

record item_row =
  i_order_id :: jsval
  i_product_name :: jsval
  i_price :: jsval
  i_quantity :: jsval

record product_row =
  p_id :: nat
  p_cols :: "(string \<times> jsval) list"

record tables =
  users :: "user_row list"
  orders :: "order_row list"
  order_items :: "item_row list"
  products :: "product_row list"

text \<open>One constructor for each SQL text of the source, with the values bound to it.\<close>

datatype stmt =
    UserSql jsval jsval jsval
  | OrderSql jsval jsval jsval jsval jsval
  | ItemsSql "item_row list"
  | ProductsSql
  | SelectUserSql jsval
  | SelectOrdersSql jsval

datatype table_name = Users | Orders | OrderItems | Products

datatype stmt_kind = Insert | InsertOrUpdate | Select

fun stmt_table :: "stmt \<Rightarrow> table_name" where
  "stmt_table (UserSql p n a) = Users"
| "stmt_table (OrderSql p t s m a) = Orders"
| "stmt_table (ItemsSql rows) = OrderItems"
| "stmt_table ProductsSql = Products"
| "stmt_table (SelectUserSql p) = Users"
| "stmt_table (SelectOrdersSql p) = Orders"

fun kind_of :: "stmt \<Rightarrow> stmt_kind" where
  "kind_of (UserSql p n a) = InsertOrUpdate"
| "kind_of (OrderSql p t s m a) = Insert"
| "kind_of (ItemsSql rows) = Insert"
| "kind_of ProductsSql = Select"
| "kind_of (SelectUserSql p) = Select"
| "kind_of (SelectOrdersSql p) = Select"

text \<open>
  \<^verbatim>\<open>INSERT INTO users (phone, name, city) VALUES (?, ?, ?)
  ON DUPLICATE KEY UPDATE name = VALUES(name), city = VALUES(city)\<close>
\<close>

definition upsert_user :: "jsval \<Rightarrow> jsval \<Rightarrow> jsval \<Rightarrow> user_row list \<Rightarrow> user_row list" where
  "upsert_user p n a us =
     (if p \<in> set (map u_phone us)
      then map (\<lambda>u. if u_phone u = p then u\<lparr>u_name := n, u_city := a\<rparr> else u) us
      else us @ [\<lparr>u_phone = p, u_name = n, u_city = a\<rparr>])"

text \<open>
  What a successful write statement does to the tables of the open transaction; \<open>r\<close>
  is the generated identifier the driver reports as \<^verbatim>\<open>result.insertId\<close>, \<open>t\<close> the
  time the row is stamped with.
\<close>

fun exec :: "stmt \<Rightarrow> nat \<Rightarrow> nat \<Rightarrow> tables \<Rightarrow> tables" where
  "exec (UserSql p n a) r t T = T\<lparr>users := upsert_user p n a (users T)\<rparr>"
| "exec (OrderSql p tot st pm addr) r t T =
     T\<lparr>orders := orders T @
        [\<lparr>o_id = r, o_user_phone = p, o_total_amount = tot, o_status = st,
          o_payment_method = pm, o_shipping_address = addr, o_created_at = t\<rparr>]\<rparr>"
| "exec (ItemsSql rows) r t T = T\<lparr>order_items := order_items T @ rows\<rparr>"
| "exec ProductsSql r t T = T"
| "exec (SelectUserSql p) r t T = T"
| "exec (SelectOrdersSql p) r t T = T"

text \<open>\<^verbatim>\<open>SELECT * FROM products ORDER BY id DESC\<close>\<close>

definition select_products :: "tables \<Rightarrow> product_row list" where
  "select_products T = rev (sort_key p_id (products T))"

text \<open>\<^verbatim>\<open>SELECT * FROM users WHERE phone = ?\<close>\<close>

definition select_user :: "jsval \<Rightarrow> tables \<Rightarrow> user_row list" where
  "select_user p T = filter (\<lambda>u. u_phone u = p) (users T)"

text \<open>\<^verbatim>\<open>SELECT * FROM orders WHERE user_phone = ? ORDER BY created_at DESC\<close>\<close>

definition select_orders :: "jsval \<Rightarrow> tables \<Rightarrow> order_row list" where
  "select_orders p T = rev (sort_key o_created_at (filter (\<lambda>oo. o_user_phone oo = p) (orders T)))"

section \<open>The server: pool, connection, responses\<close>

datatype payload =
    MessageBody string
  | ErrorBody string
  | OrderPlacedBody string nat
  | ProductsBody "product_row list"
  | UserBody user_row "order_row list"

datatype js_error = TypeError

datatype event =
    GetConnection
  | BeginTransaction
  | Query stmt
  | Commit
  | Rollback
  | Release
  | Respond nat payload
  | Uncaught js_error

text \<open>
  \<open>trace\<close> is what the process did, in order; \<open>leased\<close> counts the connections
  that are out of the pool; \<open>txn\<close> holds the tables as the open transaction of the
  leased connection sees them; \<open>store\<close> is the committed state, the one other readers
  see. A transaction's writes reach \<open>store\<close> when its commit succeeds and at no other
  moment.
\<close>

record world =
  trace :: "event list"
  leased :: nat
  txn :: "tables option"
  store :: tables

text \<open>
  What the data store answers is not the handler's choice: each call of the driver
  either hands an error with a message to the callback, or succeeds.
\<close>

record env =
  conn_err :: "string option"
  begin_err :: "string option"
  user_res :: "string + nat"
  order_res :: "string + nat"
  items_res :: "string + nat"
  commit_err :: "string option"
  now :: nat

definition emit :: "event \<Rightarrow> world \<Rightarrow> world" where
  "emit e w = w\<lparr>trace := trace w @ [e]\<rparr>"

definition new_events :: "world \<Rightarrow> world \<Rightarrow> event list" where
  "new_events w w' = drop (length (trace w)) (trace w')"

fun responses_in :: "event list \<Rightarrow> (nat \<times> payload) list" where
  "responses_in [] = []"
| "responses_in (Respond c p # es) = (c, p) # responses_in es"
| "responses_in (e # es) = responses_in es"

text \<open>\<^verbatim>\<open>res.status(c).json(p)\<close>; \<^verbatim>\<open>res.json(p)\<close> is \<open>respond 200 p\<close>.\<close>

definition respond :: "nat \<Rightarrow> payload \<Rightarrow> world \<Rightarrow> world" where
  "respond c p = emit (Respond c p)"

text \<open>
  An exception thrown inside a driver callback has no handler in the source: the
  callback stops there and nothing after it runs.
\<close>

definition uncaught :: "js_error \<Rightarrow> world \<Rightarrow> world" where
  "uncaught e = emit (Uncaught e)"

definition then_do :: "(world \<Rightarrow> world) \<Rightarrow> (world \<Rightarrow> world) \<Rightarrow> world \<Rightarrow> world" where
  "then_do f g w = g (f w)"

text \<open>Reading a property inside a callback, with the rest of the callback as \<open>k\<close>.\<close>

definition get_prop :: "jsval \<Rightarrow> string \<Rightarrow> (jsval \<Rightarrow> world \<Rightarrow> world) \<Rightarrow> world \<Rightarrow> world" where
  "get_prop v name k = (case js_get v name of None \<Rightarrow> uncaught TypeError | Some x \<Rightarrow> k x)"

text \<open>\<^verbatim>\<open>db.getConnection(cb)\<close>, \<^verbatim>\<open>connection.release()\<close>\<close>

definition getConnection ::
  "string option \<Rightarrow> (string option \<Rightarrow> world \<Rightarrow> world) \<Rightarrow> world \<Rightarrow> world" where
  "getConnection outcome cb w =
     (case outcome of
        Some e \<Rightarrow> cb (Some e) (emit GetConnection w)
      | None \<Rightarrow> cb None (emit GetConnection (w\<lparr>leased := leased w + 1\<rparr>)))"

definition release :: "world \<Rightarrow> world" where
  "release w = emit Release (w\<lparr>leased := leased w - 1\<rparr>)"

text \<open>\<^verbatim>\<open>connection.beginTransaction(cb)\<close>\<close>

definition beginTransaction ::
  "string option \<Rightarrow> (string option \<Rightarrow> world \<Rightarrow> world) \<Rightarrow> world \<Rightarrow> world" where
  "beginTransaction outcome cb w =
     (let w1 = emit BeginTransaction w in
      case outcome of
        Some e \<Rightarrow> cb (Some e) w1
      | None \<Rightarrow> cb None (w1\<lparr>txn := Some (store w1)\<rparr>))"

text \<open>\<^verbatim>\<open>connection.query(sql, params, cb)\<close>\<close>

definition query ::
  "stmt \<Rightarrow> string + nat \<Rightarrow> nat \<Rightarrow> (string + nat \<Rightarrow> world \<Rightarrow> world) \<Rightarrow> world \<Rightarrow> world" where
  "query st outcome t cb w =
     (let w1 = emit (Query st) w in
      case outcome of
        Inl e \<Rightarrow> cb (Inl e) w1
      | Inr r \<Rightarrow> cb (Inr r) (w1\<lparr>txn := map_option (exec st r t) (txn w1)\<rparr>))"

text \<open>\<^verbatim>\<open>connection.commit(cb)\<close>\<close>

definition commit ::
  "string option \<Rightarrow> (string option \<Rightarrow> world \<Rightarrow> world) \<Rightarrow> world \<Rightarrow> world" where
  "commit outcome cb w =
     (let w1 = emit Commit w in
      case outcome of
        Some e \<Rightarrow> cb (Some e) w1
      | None \<Rightarrow> cb None (case txn w1 of Some T \<Rightarrow> w1\<lparr>store := T, txn := None\<rparr> | None \<Rightarrow> w1))"

text \<open>
  \<^verbatim>\<open>connection.rollback(cb)\<close>: the source's callbacks take no argument, whatever the
  rollback reports is dropped; the staged writes are discarded.
\<close>

definition rollback :: "(world \<Rightarrow> world) \<Rightarrow> world \<Rightarrow> world" where
  "rollback cb w = cb ((emit Rollback w)\<lparr>txn := None\<rparr>)"

text \<open>\<^verbatim>\<open>db.query(sql, params, cb)\<close> on the pool: a read of the committed tables.\<close>

definition db_query ::
  "stmt \<Rightarrow> string option \<Rightarrow> (tables \<Rightarrow> 'r) \<Rightarrow> (string + 'r \<Rightarrow> world \<Rightarrow> world) \<Rightarrow> world \<Rightarrow> world" where
  "db_query st outcome sel cb w =
     (let w1 = emit (Query st) w in
      case outcome of
        Some e \<Rightarrow> cb (Inl e) w1
      | None \<Rightarrow> cb (Inr (sel (store w1))) w1)"

section \<open>POST /api/orders\<close>

text \<open>
  \<^verbatim>\<open>items.map(item => [orderId, item.name, item.price, 1])\<close>: the four values are the
  columns \<^verbatim>\<open>(order_id, product_name, price, quantity)\<close> of \<^verbatim>\<open>itemsSql\<close>. Only an
  array has \<^verbatim>\<open>map\<close>; on any other value the call throws, and so does \<^verbatim>\<open>item.name\<close>
  on a \<^verbatim>\<open>null\<close> element (\<open>None\<close>).
\<close>

definition order_item :: "nat \<Rightarrow> jsval \<Rightarrow> item_row option" where
  "order_item orderId item =
     (case js_get item ''name'' of
        None \<Rightarrow> None
      | Some n \<Rightarrow>
          (case js_get item ''price'' of
             None \<Rightarrow> None
           | Some p \<Rightarrow>
               Some \<lparr>i_order_id = JNum (of_nat orderId), i_product_name = n,
                     i_price = p, i_quantity = JNum 1\<rparr>))"

fun items_map :: "jsval \<Rightarrow> (jsval \<Rightarrow> 'a option) \<Rightarrow> 'a list option" where
  "items_map (JArr xs) f = those (map f xs)"
| "items_map v f = None"

text \<open>
  The four error branches of lines 74, 82, 94 and 100 are the same callback:
  \<^verbatim>\<open>connection.rollback(() => { connection.release(); res.status(500).json({ error: err.message }); })\<close>.
\<close>

definition fail :: "string \<Rightarrow> world \<Rightarrow> world" where
  "fail e = rollback (then_do release (respond 500 (ErrorBody e)))"

text \<open>
  The handler of lines 49 to 111, callback by callback. \<^verbatim>\<open>console.log\<close> on line 102
  writes to the process log only and is left out.
\<close>

definition place_order :: "env \<Rightarrow> (string \<times> jsval) list \<Rightarrow> world \<Rightarrow> world" where
  "place_order env body =
     (let customer = body_field body ''customer'';
          items = body_field body ''items'';
          total = body_field body ''total'';
          paymentMethod = body_field body ''paymentMethod''
      in
      if \<not> truthy customer \<or> \<not> truthy items \<or> js_get items ''length'' = Some (JNum 0)
      then respond 400 (MessageBody ''Missing order details'')
      else
        getConnection (conn_err env) (\<lambda>err.
          case err of
            Some e \<Rightarrow> respond 500 (ErrorBody e)
          | None \<Rightarrow>
        beginTransaction (begin_err env) (\<lambda>err.
          case err of
            Some e \<Rightarrow> then_do release (respond 500 (ErrorBody e))
          | None \<Rightarrow>
        get_prop customer ''phone'' (\<lambda>phone.
        get_prop customer ''name'' (\<lambda>name.
        get_prop customer ''address'' (\<lambda>address.
        query (UserSql phone name address) (user_res env) (now env) (\<lambda>res.
          case res of
            Inl e \<Rightarrow> fail e
          | Inr r \<Rightarrow>
        get_prop customer ''phone'' (\<lambda>phone.
        get_prop customer ''address'' (\<lambda>address.
        query (OrderSql phone total (JStr ''Processing'') paymentMethod address)
              (order_res env) (now env) (\<lambda>res.
          case res of
            Inl e \<Rightarrow> fail e
          | Inr orderId \<Rightarrow>
        (case items_map items (order_item orderId) of
           None \<Rightarrow> uncaught TypeError
         | Some orderItemsData \<Rightarrow>
        query (ItemsSql orderItemsData) (items_res env) (now env) (\<lambda>res.
          case res of
            Inl e \<Rightarrow> fail e
          | Inr r \<Rightarrow>
        commit (commit_err env) (\<lambda>err.
          case err of
            Some e \<Rightarrow> fail e
          | None \<Rightarrow>
              then_do release
                (respond 200 (OrderPlacedBody ''Order placed successfully!'' orderId)))))))))))))))"

section \<open>GET /api/products and GET /api/user/:phone\<close>

definition list_products :: "string option \<Rightarrow> world \<Rightarrow> world" where
  "list_products outcome =
     db_query ProductsSql outcome select_products (\<lambda>res.
       case res of
         Inl e \<Rightarrow> respond 500 (ErrorBody e)
       | Inr results \<Rightarrow> respond 200 (ProductsBody results))"

definition get_user :: "string option \<Rightarrow> string option \<Rightarrow> string \<Rightarrow> world \<Rightarrow> world" where
  "get_user user_outcome orders_outcome phone =
     db_query (SelectUserSql (JStr phone)) user_outcome (select_user (JStr phone)) (\<lambda>res.
       case res of
         Inl e \<Rightarrow> respond 500 (ErrorBody e)
       | Inr userResult \<Rightarrow>
           (case userResult of
              [] \<Rightarrow> respond 404 (MessageBody ''User not found'')
            | user # others \<Rightarrow>
                db_query (SelectOrdersSql (JStr phone)) orders_outcome (select_orders (JStr phone))
                  (\<lambda>res.
                    case res of
                      Inl e \<Rightarrow> respond 500 (ErrorBody e)
                    | Inr orderResult \<Rightarrow> respond 200 (UserBody user orderResult))))"

section \<open>Observations on a run\<close>

text \<open>
  The request passes the check of lines 54 to 56 of the source: the negation of
  \<^verbatim>\<open>!customer || !items || items.length === 0\<close>.
\<close>

definition passes_validation :: "(string \<times> jsval) list \<Rightarrow> bool" where
  "passes_validation body =
     (truthy (body_field body ''customer'') \<and> truthy (body_field body ''items'') \<and>
      js_get (body_field body ''items'') ''length'' \<noteq> Some (JNum 0))"

definition statuses :: "world \<Rightarrow> world \<Rightarrow> nat list" where
  "statuses w w' = map fst (responses_in (new_events w w'))"

text \<open>A rollback happens, and a release happens after it.\<close>

definition rollback_then_release :: "event list \<Rightarrow> bool" where
  "rollback_then_release es = (Release \<in> set (dropWhile (\<lambda>e. e \<noteq> Rollback) es))"

text \<open>The row lists of the bulk inserts into \<^verbatim>\<open>order_items\<close>, in the order issued.\<close>

fun bulk_writes :: "event list \<Rightarrow> item_row list list" where
  "bulk_writes [] = []"
| "bulk_writes (Query (ItemsSql rows) # es) = rows # bulk_writes es"
| "bulk_writes (e # es) = bulk_writes es"

fun statements :: "event list \<Rightarrow> stmt list" where
  "statements [] = []"
| "statements (Query st # es) = st # statements es"
| "statements (e # es) = statements es"

text \<open>
  The request got the single answer 500 with \<^verbatim>\<open>{error: e}\<close>, the committed tables
  are what they were, and so is the number of leased connections.
\<close>

definition failed_with :: "string \<Rightarrow> world \<Rightarrow> world \<Rightarrow> bool" where
  "failed_with e w w' =
     (responses_in (new_events w w') = [(500, ErrorBody e)] \<and>
      store w' = store w \<and> leased w' = leased w)"

subsection \<open>Example data\<close>

text \<open>
  The request of the source's comment on line 50, a data store on which every call
  succeeds, and a server at rest with empty tables.
\<close>

definition example_customer :: jsval where
  "example_customer =
     JObj [(''phone'', JStr ''555''), (''name'', JStr ''A''), (''address'', JStr ''X'')]"

definition example_body :: "(string \<times> jsval) list" where
  "example_body =
     [(''customer'', example_customer),
      (''items'', JArr [JObj [(''name'', JStr ''Widget''), (''price'', JNum 9.99)]]),
      (''total'', JNum 9.99),
      (''paymentMethod'', JStr ''COD'')]"

definition ok_env :: env where
  "ok_env = \<lparr>conn_err = None, begin_err = None, user_res = Inr 0, order_res = Inr 7,
             items_res = Inr 1, commit_err = None, now = 100\<rparr>"

definition empty_tables :: tables where
  "empty_tables = \<lparr>users = [], orders = [], order_items = [], products = []\<rparr>"

definition idle_world :: world where
  "idle_world = \<lparr>trace = [], leased = 0, txn = None, store = empty_tables\<rparr>"

text \<open>
  A second request from the same phone with another name and address, and a server that
  already holds a customer and an order.
\<close>

definition second_body :: "(string \<times> jsval) list" where
  "second_body =
     [(''customer'',
        JObj [(''phone'', JStr ''555''), (''name'', JStr ''B''), (''address'', JStr ''Y'')]),
      (''items'', JArr [JObj [(''name'', JStr ''Gadget''), (''price'', JNum 5)]]),
      (''total'', JNum 5),
      (''paymentMethod'', JStr ''Card'')]"

definition old_order :: order_row where
  "old_order = \<lparr>o_id = 3, o_user_phone = JStr ''555'', o_total_amount = JNum 2,
      o_status = JStr ''Shipped'', o_payment_method = JStr ''COD'',
      o_shipping_address = JStr ''W'', o_created_at = 50\<rparr>"

definition busy_world :: world where
  "busy_world = \<lparr>trace = [], leased = 0, txn = None,
     store = \<lparr>users = [\<lparr>u_phone = JStr ''555'', u_name = JStr ''Z'', u_city = JStr ''W''\<rparr>],
              orders = [old_order], order_items = [], products = []\<rparr>\<rparr>"

text \<open>A catalogue, and a server with a customer who has two orders.\<close>

definition catalogue :: "product_row list" where
  "catalogue =
     [\<lparr>p_id = 2, p_cols = [(''name'', JStr ''Wax'')]\<rparr>,
      \<lparr>p_id = 5, p_cols = [(''name'', JStr ''Polish'')]\<rparr>,
      \<lparr>p_id = 1, p_cols = [(''name'', JStr ''Sponge'')]\<rparr>]"

definition shop_world :: world where
  "shop_world = \<lparr>trace = [], leased = 0, txn = None,
     store = \<lparr>users = [\<lparr>u_phone = JStr ''555'', u_name = JStr ''A'', u_city = JStr ''X''\<rparr>],
              orders = [old_order,
                        old_order\<lparr>o_id := 4, o_user_phone := JStr ''777''\<rparr>,
                        old_order\<lparr>o_id := 9, o_created_at := 80\<rparr>],
              order_items = [], products = catalogue\<rparr>\<rparr>"

section \<open>Basic facts\<close>

lemmas ops = emit_def respond_def uncaught_def then_do_def get_prop_def getConnection_def
  release_def beginTransaction_def query_def commit_def rollback_def db_query_def fail_def

lemmas examples = example_customer_def example_body_def ok_env_def empty_tables_def
  idle_world_def second_body_def old_order_def busy_world_def

lemma new_events_append: "trace w' = trace w @ es \<Longrightarrow> new_events w w' = es"
  by (simp add: new_events_def)

lemma truthy_js_get: "truthy v \<Longrightarrow> \<exists>x. js_get v k = Some x"
  by (cases v) simp_all

section \<open>Validation\<close>

lemma place_order_invalid:
  "\<not> passes_validation body \<Longrightarrow>
   place_order env body w =
     w\<lparr>trace := trace w @ [Respond 400 (MessageBody ''Missing order details'')]\<rparr>"
  by (auto simp add: place_order_def passes_validation_def respond_def emit_def Let_def)

text \<open>
  C3. When the \<^verbatim>\<open>customer\<close> field is absent, the \<^verbatim>\<open>items\<close> field is absent, or
  \<^verbatim>\<open>items\<close> is the empty list, the handler answers 400 with
  \<^verbatim>\<open>{message: "Missing order details"}\<close> and that response is all it does: no connection
  is requested, no statement is issued, the pool, the connection and the tables are as
  they were.
\<close>

theorem missing_details_rejected:
  assumes "map_of body ''customer'' = None \<or> map_of body ''items'' = None \<or>
           map_of body ''items'' = Some (JArr [])"
  shows "new_events w (place_order env body w) =
           [Respond 400 (MessageBody ''Missing order details'')] \<and>
         leased (place_order env body w) = leased w \<and>
         txn (place_order env body w) = txn w \<and>
         store (place_order env body w) = store w"
proof -
  from assms have "\<not> passes_validation body"
    by (auto simp add: passes_validation_def body_field_def)
  then have "place_order env body w =
      w\<lparr>trace := trace w @ [Respond 400 (MessageBody ''Missing order details'')]\<rparr>"
    by (rule place_order_invalid)
  then show ?thesis
    by (simp add: new_events_def)
qed

theorem missing_details_rejected_witness:
  "new_events idle_world (place_order ok_env [(''items'', JArr [JNull])] idle_world) =
     [Respond 400 (MessageBody ''Missing order details'')] \<and>
   new_events idle_world (place_order ok_env [(''customer'', example_customer)] idle_world) =
     [Respond 400 (MessageBody ''Missing order details'')] \<and>
   new_events idle_world
     (place_order ok_env [(''customer'', example_customer), (''items'', JArr [])] idle_world) =
     [Respond 400 (MessageBody ''Missing order details'')]"
  using missing_details_rejected [of "[(''items'', JArr [JNull])]" idle_world ok_env]
    missing_details_rejected [of "[(''customer'', example_customer)]" idle_world ok_env]
    missing_details_rejected
      [of "[(''customer'', example_customer), (''items'', JArr [])]" idle_world ok_env]
  by simp

section \<open>The paths through the order handler\<close>

text \<open>
  One lemma for each way a request that passed validation can go, with the world it
  leaves behind, and a case rule saying that there is no other way.
\<close>

lemma place_order_conn_fail:
  assumes "passes_validation body" "conn_err env = Some e"
  shows "place_order env body w = w\<lparr>trace := trace w @ [GetConnection, Respond 500 (ErrorBody e)]\<rparr>"
  using assms by (simp add: place_order_def passes_validation_def ops Let_def)

lemma place_order_begin_fail:
  assumes "passes_validation body" "conn_err env = None" "begin_err env = Some e"
  shows "place_order env body w =
    w\<lparr>trace := trace w @ [GetConnection, BeginTransaction, Release, Respond 500 (ErrorBody e)]\<rparr>"
  using assms by (simp add: place_order_def passes_validation_def ops Let_def)

lemma place_order_user_fail:
  assumes "passes_validation body" "conn_err env = None" "begin_err env = None"
    "js_get (body_field body ''customer'') ''phone'' = Some ph"
    "js_get (body_field body ''customer'') ''name'' = Some nm"
    "js_get (body_field body ''customer'') ''address'' = Some ad"
    "user_res env = Inl e"
  shows "place_order env body w =
    w\<lparr>trace := trace w @ [GetConnection, BeginTransaction, Query (UserSql ph nm ad), Rollback, Release,
        Respond 500 (ErrorBody e)], txn := None\<rparr>"
  using assms by (simp add: place_order_def passes_validation_def ops Let_def)

lemma place_order_order_fail:
  assumes "passes_validation body" "conn_err env = None" "begin_err env = None"
    "js_get (body_field body ''customer'') ''phone'' = Some ph"
    "js_get (body_field body ''customer'') ''name'' = Some nm"
    "js_get (body_field body ''customer'') ''address'' = Some ad"
    "user_res env = Inr r1" "order_res env = Inl e"
  shows "place_order env body w =
    w\<lparr>trace := trace w @ [GetConnection, BeginTransaction, Query (UserSql ph nm ad),
        Query (OrderSql ph (body_field body ''total'') (JStr ''Processing'')
                 (body_field body ''paymentMethod'') ad),
        Rollback, Release, Respond 500 (ErrorBody e)], txn := None\<rparr>"
  using assms by (simp add: place_order_def passes_validation_def ops Let_def)

lemma place_order_throw:
  assumes "passes_validation body" "conn_err env = None" "begin_err env = None"
    "js_get (body_field body ''customer'') ''phone'' = Some ph"
    "js_get (body_field body ''customer'') ''name'' = Some nm"
    "js_get (body_field body ''customer'') ''address'' = Some ad"
    "user_res env = Inr r1" "order_res env = Inr oid"
    "items_map (body_field body ''items'') (order_item oid) = None"
  shows "place_order env body w =
    w\<lparr>trace := trace w @ [GetConnection, BeginTransaction, Query (UserSql ph nm ad),
        Query (OrderSql ph (body_field body ''total'') (JStr ''Processing'')
                 (body_field body ''paymentMethod'') ad),
        Uncaught TypeError],
      leased := leased w + 1,
      txn := Some (exec (OrderSql ph (body_field body ''total'') (JStr ''Processing'')
                 (body_field body ''paymentMethod'') ad) oid (now env)
                 (exec (UserSql ph nm ad) r1 (now env) (store w)))\<rparr>"
  using assms by (simp add: place_order_def passes_validation_def ops Let_def)

lemma place_order_items_fail:
  assumes "passes_validation body" "conn_err env = None" "begin_err env = None"
    "js_get (body_field body ''customer'') ''phone'' = Some ph"
    "js_get (body_field body ''customer'') ''name'' = Some nm"
    "js_get (body_field body ''customer'') ''address'' = Some ad"
    "user_res env = Inr r1" "order_res env = Inr oid"
    "items_map (body_field body ''items'') (order_item oid) = Some rows"
    "items_res env = Inl e"
  shows "place_order env body w =
    w\<lparr>trace := trace w @ [GetConnection, BeginTransaction, Query (UserSql ph nm ad),
        Query (OrderSql ph (body_field body ''total'') (JStr ''Processing'')
                 (body_field body ''paymentMethod'') ad),
        Query (ItemsSql rows),
        Rollback, Release, Respond 500 (ErrorBody e)], txn := None\<rparr>"
  using assms by (simp add: place_order_def passes_validation_def ops Let_def)

lemma place_order_commit_fail:
  assumes "passes_validation body" "conn_err env = None" "begin_err env = None"
    "js_get (body_field body ''customer'') ''phone'' = Some ph"
    "js_get (body_field body ''customer'') ''name'' = Some nm"
    "js_get (body_field body ''customer'') ''address'' = Some ad"
    "user_res env = Inr r1" "order_res env = Inr oid"
    "items_map (body_field body ''items'') (order_item oid) = Some rows"
    "items_res env = Inr r3" "commit_err env = Some e"
  shows "place_order env body w =
    w\<lparr>trace := trace w @ [GetConnection, BeginTransaction, Query (UserSql ph nm ad),
        Query (OrderSql ph (body_field body ''total'') (JStr ''Processing'')
                 (body_field body ''paymentMethod'') ad),
        Query (ItemsSql rows), Commit,
        Rollback, Release, Respond 500 (ErrorBody e)], txn := None\<rparr>"
  using assms by (simp add: place_order_def passes_validation_def ops Let_def)

lemma place_order_success:
  assumes "passes_validation body" "conn_err env = None" "begin_err env = None"
    "js_get (body_field body ''customer'') ''phone'' = Some ph"
    "js_get (body_field body ''customer'') ''name'' = Some nm"
    "js_get (body_field body ''customer'') ''address'' = Some ad"
    "user_res env = Inr r1" "order_res env = Inr oid"
    "items_map (body_field body ''items'') (order_item oid) = Some rows"
    "items_res env = Inr r3" "commit_err env = None"
  shows "place_order env body w =
    w\<lparr>trace := trace w @ [GetConnection, BeginTransaction, Query (UserSql ph nm ad),
        Query (OrderSql ph (body_field body ''total'') (JStr ''Processing'')
                 (body_field body ''paymentMethod'') ad),
        Query (ItemsSql rows), Commit, Release,
        Respond 200 (OrderPlacedBody ''Order placed successfully!'' oid)],
      txn := None,
      store := exec (ItemsSql rows) r3 (now env)
                (exec (OrderSql ph (body_field body ''total'') (JStr ''Processing'')
                 (body_field body ''paymentMethod'') ad) oid (now env)
                 (exec (UserSql ph nm ad) r1 (now env) (store w)))\<rparr>"
  using assms by (simp add: place_order_def passes_validation_def ops Let_def)

lemma place_order_cases [case_names Invalid Conn Begin User Order Throw Items Commit Success]:
  obtains
    (Invalid) "\<not> passes_validation body"
  | (Conn) e where "passes_validation body" "conn_err env = Some e"
  | (Begin) e where "passes_validation body" "conn_err env = None" "begin_err env = Some e"
  | (User) ph nm ad e where "passes_validation body" "conn_err env = None" "begin_err env = None"
      "js_get (body_field body ''customer'') ''phone'' = Some ph"
      "js_get (body_field body ''customer'') ''name'' = Some nm"
      "js_get (body_field body ''customer'') ''address'' = Some ad"
      "user_res env = Inl e"
  | (Order) ph nm ad r1 e where "passes_validation body" "conn_err env = None" "begin_err env = None"
      "js_get (body_field body ''customer'') ''phone'' = Some ph"
      "js_get (body_field body ''customer'') ''name'' = Some nm"
      "js_get (body_field body ''customer'') ''address'' = Some ad"
      "user_res env = Inr r1" "order_res env = Inl e"
  | (Throw) ph nm ad r1 oid where "passes_validation body" "conn_err env = None" "begin_err env = None"
      "js_get (body_field body ''customer'') ''phone'' = Some ph"
      "js_get (body_field body ''customer'') ''name'' = Some nm"
      "js_get (body_field body ''customer'') ''address'' = Some ad"
      "user_res env = Inr r1" "order_res env = Inr oid"
      "items_map (body_field body ''items'') (order_item oid) = None"
  | (Items) ph nm ad r1 oid rows e where "passes_validation body" "conn_err env = None" "begin_err env = None"
      "js_get (body_field body ''customer'') ''phone'' = Some ph"
      "js_get (body_field body ''customer'') ''name'' = Some nm"
      "js_get (body_field body ''customer'') ''address'' = Some ad"
      "user_res env = Inr r1" "order_res env = Inr oid"
      "items_map (body_field body ''items'') (order_item oid) = Some rows"
      "items_res env = Inl e"
  | (Commit) ph nm ad r1 oid rows r3 e where "passes_validation body" "conn_err env = None" "begin_err env = None"
      "js_get (body_field body ''customer'') ''phone'' = Some ph"
      "js_get (body_field body ''customer'') ''name'' = Some nm"
      "js_get (body_field body ''customer'') ''address'' = Some ad"
      "user_res env = Inr r1" "order_res env = Inr oid"
      "items_map (body_field body ''items'') (order_item oid) = Some rows"
      "items_res env = Inr r3" "commit_err env = Some e"
  | (Success) ph nm ad r1 oid rows r3 where "passes_validation body" "conn_err env = None" "begin_err env = None"
      "js_get (body_field body ''customer'') ''phone'' = Some ph"
      "js_get (body_field body ''customer'') ''name'' = Some nm"
      "js_get (body_field body ''customer'') ''address'' = Some ad"
      "user_res env = Inr r1" "order_res env = Inr oid"
      "items_map (body_field body ''items'') (order_item oid) = Some rows"
      "items_res env = Inr r3" "commit_err env = None"
proof (cases "passes_validation body")
  case False
  then show ?thesis by (rule Invalid)
next
  case valid: True
  then have "truthy (body_field body ''customer'')"
    by (simp add: passes_validation_def)
  then obtain ph nm ad where
    props: "js_get (body_field body ''customer'') ''phone'' = Some ph"
      "js_get (body_field body ''customer'') ''name'' = Some nm"
      "js_get (body_field body ''customer'') ''address'' = Some ad"
    using truthy_js_get by metis
  show ?thesis
  proof (cases "conn_err env")
    case (Some e)
    with valid show ?thesis by (rule Conn)
  next
    case c: None
    show ?thesis
    proof (cases "begin_err env")
      case (Some e)
      with valid c show ?thesis by (rule Begin)
    next
      case b: None
      show ?thesis
      proof (cases "user_res env")
        case (Inl e)
        with valid c b props show ?thesis by (rule User)
      next
        case u: (Inr r1)
        show ?thesis
        proof (cases "order_res env")
          case (Inl e)
          with valid c b props u show ?thesis by (rule Order)
        next
          case o: (Inr oid)
          show ?thesis
          proof (cases "items_map (body_field body ''items'') (order_item oid)")
            case None
            with valid c b props u o show ?thesis by (rule Throw)
          next
            case m: (Some rows)
            show ?thesis
            proof (cases "items_res env")
              case (Inl e)
              with valid c b props u o m show ?thesis by (rule Items)
            next
              case i: (Inr r3)
              show ?thesis
              proof (cases "commit_err env")
                case (Some e)
                with valid c b props u o m i show ?thesis by (rule Commit)
              next
                case None
                with valid c b props u o m i show ?thesis by (rule Success)
              qed
            qed
          qed
        qed
      qed
    qed
  qed
qed



lemma example_valid: "passes_validation example_body"
  by (simp add: passes_validation_def body_field_def examples)

lemma example_rows:
  "items_map (body_field example_body ''items'') (order_item oid) =
     Some [\<lparr>i_order_id = JNum (of_nat oid), i_product_name = JStr ''Widget'',
            i_price = JNum 9.99, i_quantity = JNum 1\<rparr>]"
  by (simp add: body_field_def examples order_item_def)

section \<open>Failure of a step of the transaction\<close>

text \<open>
  When \<^verbatim>\<open>beginTransaction\<close> fails, line 63 of the source releases the connection and
  answers 500; it does not call \<^verbatim>\<open>rollback\<close>. So "rolled back before the connection
  is released" does not hold for a failure at transaction start.
\<close>

theorem begin_failure_releases_without_rollback:
  "new_events idle_world
     (place_order (ok_env\<lparr>begin_err := Some ''boom''\<rparr>) example_body idle_world) =
     [GetConnection, BeginTransaction, Release, Respond 500 (ErrorBody ''boom'')] \<and>
   \<not> rollback_then_release
     (new_events idle_world
        (place_order (ok_env\<lparr>begin_err := Some ''boom''\<rparr>) example_body idle_world))"
  by (simp add: place_order_begin_fail passes_validation_def body_field_def examples
      new_events_def rollback_then_release_def)

text \<open>
  C1, as the code has it. A request that passed validation and fails at a step gets the
  single answer 500 with the message of that step's error, and the committed tables and
  the number of leased connections are as before, whichever step it is. A rollback
  followed by the release happens when the failing step is the customer upsert, the
  order insert, the items insert or the commit. When the failing step is the start of
  the transaction the connection is released and no rollback is issued; when it is the
  acquisition of the connection there is neither a rollback nor a release.
\<close>

theorem failure_is_reported_and_leaves_no_writes:
  assumes "passes_validation body"
  shows
    "(\<forall>e. conn_err env = Some e \<longrightarrow>
        failed_with e w (place_order env body w) \<and>
        Rollback \<notin> set (new_events w (place_order env body w)) \<and>
        Release \<notin> set (new_events w (place_order env body w))) \<and>
     (\<forall>e. conn_err env = None \<and> begin_err env = Some e \<longrightarrow>
        failed_with e w (place_order env body w) \<and>
        Rollback \<notin> set (new_events w (place_order env body w)) \<and>
        Release \<in> set (new_events w (place_order env body w))) \<and>
     (\<forall>e. conn_err env = None \<and> begin_err env = None \<and> user_res env = Inl e \<longrightarrow>
        failed_with e w (place_order env body w) \<and>
        rollback_then_release (new_events w (place_order env body w))) \<and>
     (\<forall>e r1. conn_err env = None \<and> begin_err env = None \<and> user_res env = Inr r1 \<and>
        order_res env = Inl e \<longrightarrow>
        failed_with e w (place_order env body w) \<and>
        rollback_then_release (new_events w (place_order env body w))) \<and>
     (\<forall>e r1 oid rows. conn_err env = None \<and> begin_err env = None \<and> user_res env = Inr r1 \<and>
        order_res env = Inr oid \<and>
        items_map (body_field body ''items'') (order_item oid) = Some rows \<and>
        items_res env = Inl e \<longrightarrow>
        failed_with e w (place_order env body w) \<and>
        rollback_then_release (new_events w (place_order env body w))) \<and>
     (\<forall>e r1 oid rows r3. conn_err env = None \<and> begin_err env = None \<and> user_res env = Inr r1 \<and>
        order_res env = Inr oid \<and>
        items_map (body_field body ''items'') (order_item oid) = Some rows \<and>
        items_res env = Inr r3 \<and> commit_err env = Some e \<longrightarrow>
        failed_with e w (place_order env body w) \<and>
        rollback_then_release (new_events w (place_order env body w)))"
proof -
  from assms have "truthy (body_field body ''customer'')"
    by (simp add: passes_validation_def)
  then obtain ph nm ad where
    props: "js_get (body_field body ''customer'') ''phone'' = Some ph"
      "js_get (body_field body ''customer'') ''name'' = Some nm"
      "js_get (body_field body ''customer'') ''address'' = Some ad"
    using truthy_js_get by metis
  note obs = failed_with_def new_events_def rollback_then_release_def
  have conn: "\<forall>e. conn_err env = Some e \<longrightarrow>
        failed_with e w (place_order env body w) \<and>
        Rollback \<notin> set (new_events w (place_order env body w)) \<and>
        Release \<notin> set (new_events w (place_order env body w))"
    using assms by (simp add: place_order_conn_fail obs)
  have beginf: "\<forall>e. conn_err env = None \<and> begin_err env = Some e \<longrightarrow>
        failed_with e w (place_order env body w) \<and>
        Rollback \<notin> set (new_events w (place_order env body w)) \<and>
        Release \<in> set (new_events w (place_order env body w))"
    using assms by (simp add: place_order_begin_fail obs)
  have user: "\<forall>e. conn_err env = None \<and> begin_err env = None \<and> user_res env = Inl e \<longrightarrow>
        failed_with e w (place_order env body w) \<and>
        rollback_then_release (new_events w (place_order env body w))"
    using assms props by (simp add: place_order_user_fail obs)
  have order: "\<forall>e r1. conn_err env = None \<and> begin_err env = None \<and> user_res env = Inr r1 \<and>
        order_res env = Inl e \<longrightarrow>
        failed_with e w (place_order env body w) \<and>
        rollback_then_release (new_events w (place_order env body w))"
    using assms props by (simp add: place_order_order_fail obs)
  have items: "\<forall>e r1 oid rows. conn_err env = None \<and> begin_err env = None \<and> user_res env = Inr r1 \<and>
        order_res env = Inr oid \<and>
        items_map (body_field body ''items'') (order_item oid) = Some rows \<and>
        items_res env = Inl e \<longrightarrow>
        failed_with e w (place_order env body w) \<and>
        rollback_then_release (new_events w (place_order env body w))"
    using assms props by (simp add: place_order_items_fail obs)
  have commit: "\<forall>e r1 oid rows r3. conn_err env = None \<and> begin_err env = None \<and> user_res env = Inr r1 \<and>
        order_res env = Inr oid \<and>
        items_map (body_field body ''items'') (order_item oid) = Some rows \<and>
        items_res env = Inr r3 \<and> commit_err env = Some e \<longrightarrow>
        failed_with e w (place_order env body w) \<and>
        rollback_then_release (new_events w (place_order env body w))"
    using assms props by (simp add: place_order_commit_fail obs)
  from conn beginf user order items commit show ?thesis by blast
qed

theorem failure_is_reported_and_leaves_no_writes_witness:
  "failed_with ''down'' idle_world
     (place_order (ok_env\<lparr>conn_err := Some ''down''\<rparr>) example_body idle_world) \<and>
   Release \<in> set (new_events idle_world
     (place_order (ok_env\<lparr>begin_err := Some ''boom''\<rparr>) example_body idle_world)) \<and>
   rollback_then_release (new_events idle_world
     (place_order (ok_env\<lparr>user_res := Inl ''e1''\<rparr>) example_body idle_world)) \<and>
   rollback_then_release (new_events idle_world
     (place_order (ok_env\<lparr>order_res := Inl ''e2''\<rparr>) example_body idle_world)) \<and>
   failed_with ''e3'' idle_world
     (place_order (ok_env\<lparr>items_res := Inl ''e3''\<rparr>) example_body idle_world) \<and>
   failed_with ''e4'' idle_world
     (place_order (ok_env\<lparr>commit_err := Some ''e4''\<rparr>) example_body idle_world)"
  using
    failure_is_reported_and_leaves_no_writes
      [OF example_valid, of "ok_env\<lparr>conn_err := Some ''down''\<rparr>" idle_world]
    failure_is_reported_and_leaves_no_writes
      [OF example_valid, of "ok_env\<lparr>begin_err := Some ''boom''\<rparr>" idle_world]
    failure_is_reported_and_leaves_no_writes
      [OF example_valid, of "ok_env\<lparr>user_res := Inl ''e1''\<rparr>" idle_world]
    failure_is_reported_and_leaves_no_writes
      [OF example_valid, of "ok_env\<lparr>order_res := Inl ''e2''\<rparr>" idle_world]
    failure_is_reported_and_leaves_no_writes
      [OF example_valid, of "ok_env\<lparr>items_res := Inl ''e3''\<rparr>" idle_world]
    failure_is_reported_and_leaves_no_writes
      [OF example_valid, of "ok_env\<lparr>commit_err := Some ''e4''\<rparr>" idle_world]
  by (simp add: ok_env_def example_rows)

section \<open>The connection goes back to the pool\<close>

text \<open>
  On every path that runs to a response the connection that was acquired is released,
  exactly once.
\<close>

lemma released_unless_thrown:
  assumes "passes_validation body" "conn_err env = None"
    "Uncaught TypeError \<notin> set (new_events w (place_order env body w))"
  shows "leased (place_order env body w) = leased w \<and>
         count_list (new_events w (place_order env body w)) Release = 1"
proof (cases rule: place_order_cases [where body = body and env = env])
  case Invalid
  with assms show ?thesis by simp
next
  case (Conn e)
  with assms show ?thesis by simp
next
  case (Begin e)
  then show ?thesis by (simp add: place_order_begin_fail new_events_def)
next
  case (User ph nm ad e)
  then show ?thesis by (simp add: place_order_user_fail new_events_def)
next
  case (Order ph nm ad r1 e)
  then show ?thesis by (simp add: place_order_order_fail new_events_def)
next
  case (Throw ph nm ad r1 oid)
  with assms(3) show ?thesis by (simp add: place_order_throw new_events_def)
next
  case (Items ph nm ad r1 oid rows e)
  then show ?thesis by (simp add: place_order_items_fail new_events_def)
next
  case (Commit ph nm ad r1 oid rows r3 e)
  then show ?thesis by (simp add: place_order_commit_fail new_events_def)
next
  case (Success ph nm ad r1 oid rows r3)
  then show ?thesis by (simp add: place_order_success new_events_def)
qed

text \<open>
  C2. A connection that was acquired is to go back to the pool on every path. The
  handler misses one: the request below passes validation (\<^verbatim>\<open>items\<close> is a non-empty
  array), the customer upsert and the order insert succeed, and then \<^verbatim>\<open>item.name\<close>
  on the \<^verbatim>\<open>null\<close> element throws inside the callback of the order insert. No
  rollback, no release and no response follow; the connection stays leased.
\<close>

theorem null_item_leaves_connection_leased:
  "new_events idle_world
     (place_order ok_env
        [(''customer'', example_customer), (''items'', JArr [JNull]),
         (''total'', JNum 1), (''paymentMethod'', JStr ''COD'')] idle_world) =
     [GetConnection, BeginTransaction,
      Query (UserSql (JStr ''555'') (JStr ''A'') (JStr ''X'')),
      Query (OrderSql (JStr ''555'') (JNum 1) (JStr ''Processing'') (JStr ''COD'') (JStr ''X'')),
      Uncaught TypeError] \<and>
   leased (place_order ok_env
        [(''customer'', example_customer), (''items'', JArr [JNull]),
         (''total'', JNum 1), (''paymentMethod'', JStr ''COD'')] idle_world) = 1 \<and>
   leased idle_world = 0 \<and>
   Release \<notin> set (new_events idle_world
     (place_order ok_env
        [(''customer'', example_customer), (''items'', JArr [JNull]),
         (''total'', JNum 1), (''paymentMethod'', JStr ''COD'')] idle_world))"
  by (simp add: place_order_def ops examples body_field_def order_item_def new_events_def)


theorem null_item_leaves_connection_leased_witness:
  "leased (place_order ok_env
        [(''customer'', example_customer), (''items'', JArr [JNull]),
         (''total'', JNum 1), (''paymentMethod'', JStr ''COD'')] idle_world) \<noteq>
   leased idle_world"
  using null_item_leaves_connection_leased by simp

section \<open>The items insert\<close>

lemma those_map_exists:
  "(\<forall>x\<in>set xs. \<exists>y. f x = Some y) \<Longrightarrow> \<exists>ys. those (map f xs) = Some ys"
  by (induction xs) auto

lemma those_map_nth:
  "those (map f xs) = Some ys \<Longrightarrow>
   length ys = length xs \<and> (\<forall>i<length xs. f (xs ! i) = Some (ys ! i))"
proof (induction xs arbitrary: ys)
  case Nil
  then show ?case by simp
next
  case (Cons x xs)
  from Cons.prems obtain y zs where
    y: "f x = Some y" and zs: "those (map f xs) = Some zs" and ys: "ys = y # zs"
    by (auto split: option.splits)
  from Cons.IH [OF zs] have "length zs = length xs"
    and nth: "\<forall>i<length xs. f (xs ! i) = Some (zs ! i)" by simp_all
  with y ys show ?case
    by (auto simp add: nth_Cons split: nat.splits)
qed

lemma order_item_defined:
  "item \<noteq> JNull \<Longrightarrow> item \<noteq> JUndefined \<Longrightarrow> \<exists>row. order_item orderId item = Some row"
  by (cases item) (simp_all add: order_item_def)

lemma order_item_SomeD:
  "order_item orderId item = Some row \<Longrightarrow>
   \<exists>n p. js_get item ''name'' = Some n \<and> js_get item ''price'' = Some p \<and>
     row = \<lparr>i_order_id = JNum (of_nat orderId), i_product_name = n, i_price = p,
            i_quantity = JNum 1\<rparr>"
  by (auto simp add: order_item_def split: option.splits)

text \<open>
  C5. For a request whose \<^verbatim>\<open>items\<close> is an array of \<open>n\<close> entries, none of them
  \<^verbatim>\<open>null\<close>, and that reached the items insert (connection, transaction start, customer
  upsert and order insert succeeded, the latter with generated identifier \<open>oid\<close>):
  the handler issues exactly one insert into \<^verbatim>\<open>order_items\<close>; its row list has
  \<open>n\<close> rows, \<open>n > 0\<close>, and row \<open>i\<close> holds \<open>oid\<close>, the name and the price of
  item \<open>i\<close>, and quantity 1.
\<close>

theorem items_bulk_insert:
  assumes "passes_validation body"
    and "body_field body ''items'' = JArr xs"
    and "JNull \<notin> set xs" and "JUndefined \<notin> set xs"
    and "conn_err env = None" and "begin_err env = None"
    and "user_res env = Inr r1" and "order_res env = Inr oid"
  shows "\<exists>rows. bulk_writes (new_events w (place_order env body w)) = [rows] \<and>
           xs \<noteq> [] \<and> length rows = length xs \<and>
           (\<forall>i<length xs. \<exists>n p.
              js_get (xs ! i) ''name'' = Some n \<and> js_get (xs ! i) ''price'' = Some p \<and>
              rows ! i = \<lparr>i_order_id = JNum (of_nat oid), i_product_name = n, i_price = p,
                          i_quantity = JNum 1\<rparr>)"
proof -
  from assms(1,2) have nonempty: "xs \<noteq> []"
    by (auto simp add: passes_validation_def)
  from assms(3,4) have "\<forall>x\<in>set xs. \<exists>y. order_item oid x = Some y"
    using order_item_defined by metis
  then obtain rows where rows: "those (map (order_item oid) xs) = Some rows"
    using those_map_exists by blast
  with assms(2) have mapped: "items_map (body_field body ''items'') (order_item oid) = Some rows"
    by simp
  from those_map_nth [OF rows] have len: "length rows = length xs"
    and nth: "\<forall>i<length xs. order_item oid (xs ! i) = Some (rows ! i)" by simp_all
  from nth have cols: "\<forall>i<length xs. \<exists>n p.
      js_get (xs ! i) ''name'' = Some n \<and> js_get (xs ! i) ''price'' = Some p \<and>
      rows ! i = \<lparr>i_order_id = JNum (of_nat oid), i_product_name = n, i_price = p,
                  i_quantity = JNum 1\<rparr>"
    using order_item_SomeD by blast
  from assms(1) have "truthy (body_field body ''customer'')"
    by (simp add: passes_validation_def)
  then obtain ph nm ad where
    props: "js_get (body_field body ''customer'') ''phone'' = Some ph"
      "js_get (body_field body ''customer'') ''name'' = Some nm"
      "js_get (body_field body ''customer'') ''address'' = Some ad"
    using truthy_js_get by metis
  have "bulk_writes (new_events w (place_order env body w)) = [rows]"
  proof (cases "items_res env")
    case (Inl e)
    with assms props mapped show ?thesis
      by (simp add: place_order_items_fail [where rows = rows] new_events_def)
  next
    case i: (Inr r3)
    show ?thesis
    proof (cases "commit_err env")
      case (Some e)
      with assms props mapped i show ?thesis
        by (simp add: place_order_commit_fail [where rows = rows] new_events_def)
    next
      case None
      with assms props mapped i show ?thesis
        by (simp add: place_order_success [where rows = rows] new_events_def)
    qed
  qed
  with nonempty len cols show ?thesis by blast
qed

theorem items_bulk_insert_witness:
  "\<exists>rows. bulk_writes (new_events idle_world (place_order ok_env example_body idle_world)) = [rows] \<and>
     length rows = 1 \<and>
     rows ! 0 = \<lparr>i_order_id = JNum 7, i_product_name = JStr ''Widget'', i_price = JNum 9.99,
                 i_quantity = JNum 1\<rparr>"
  using items_bulk_insert [OF example_valid, of "[JObj [(''name'', JStr ''Widget''), (''price'', JNum 9.99)]]" ok_env 0 7 idle_world]
  by (simp add: body_field_def examples)



section \<open>A placed order\<close>

text \<open>The answer 200 is given on one path only, the one on which every step succeeded.\<close>

lemma success_inversion:
  assumes "statuses w (place_order env body w) = [200]"
  obtains ph nm ad r1 oid rows r3 where
      "passes_validation body" "conn_err env = None" "begin_err env = None"
      "js_get (body_field body ''customer'') ''phone'' = Some ph"
      "js_get (body_field body ''customer'') ''name'' = Some nm"
      "js_get (body_field body ''customer'') ''address'' = Some ad"
      "user_res env = Inr r1" "order_res env = Inr oid"
      "items_map (body_field body ''items'') (order_item oid) = Some rows"
      "items_res env = Inr r3" "commit_err env = None"
proof (cases rule: place_order_cases [where body = body and env = env])
  case Invalid
  with assms show ?thesis by (simp add: place_order_invalid statuses_def new_events_def)
next
  case (Conn e)
  with assms show ?thesis by (simp add: place_order_conn_fail statuses_def new_events_def)
next
  case (Begin e)
  with assms show ?thesis by (simp add: place_order_begin_fail statuses_def new_events_def)
next
  case (User ph nm ad e)
  with assms show ?thesis by (simp add: place_order_user_fail statuses_def new_events_def)
next
  case (Order ph nm ad r1 e)
  with assms show ?thesis by (simp add: place_order_order_fail statuses_def new_events_def)
next
  case (Throw ph nm ad r1 oid)
  with assms show ?thesis by (simp add: place_order_throw statuses_def new_events_def)
next
  case (Items ph nm ad r1 oid rows e)
  with assms show ?thesis by (simp add: place_order_items_fail statuses_def new_events_def)
next
  case (Commit ph nm ad r1 oid rows r3 e)
  with assms show ?thesis by (simp add: place_order_commit_fail statuses_def new_events_def)
next
  case (Success ph nm ad r1 oid rows r3)
  then show ?thesis by (rule that)
qed

text \<open>
  C6. When the handler answers 200, the body is
  \<^verbatim>\<open>{message: "Order placed successfully!", orderId}\<close> with \<open>orderId\<close> the identifier
  the order insert generated, and the committed \<^verbatim>\<open>orders\<close> table is the old one with
  one more row: that identifier, the phone of the customer payload, the request's
  total, the status \<^verbatim>\<open>Processing\<close>, the request's payment method, and as shipping
  address the \<^verbatim>\<open>address\<close> of the customer payload.
\<close>

theorem placed_order_row_and_response:
  assumes "statuses w (place_order env body w) = [200]"
    and "js_get (body_field body ''customer'') ''phone'' = Some ph"
    and "js_get (body_field body ''customer'') ''address'' = Some ad"
  shows "\<exists>oid. order_res env = Inr oid \<and>
           responses_in (new_events w (place_order env body w)) =
             [(200, OrderPlacedBody ''Order placed successfully!'' oid)] \<and>
           orders (store (place_order env body w)) =
             orders (store w) @
               [\<lparr>o_id = oid, o_user_phone = ph,
                 o_total_amount = body_field body ''total'',
                 o_status = JStr ''Processing'',
                 o_payment_method = body_field body ''paymentMethod'',
                 o_shipping_address = ad, o_created_at = now env\<rparr>]"
proof -
  from assms(1) obtain ph' nm ad' r1 oid rows r3 where s:
      "passes_validation body" "conn_err env = None" "begin_err env = None"
      "js_get (body_field body ''customer'') ''phone'' = Some ph'"
      "js_get (body_field body ''customer'') ''name'' = Some nm"
      "js_get (body_field body ''customer'') ''address'' = Some ad'"
      "user_res env = Inr r1" "order_res env = Inr oid"
      "items_map (body_field body ''items'') (order_item oid) = Some rows"
      "items_res env = Inr r3" "commit_err env = None"
    by (rule success_inversion)
  from s(4,6) assms(2,3) have same: "ph' = ph" "ad' = ad" by simp_all
  from place_order_success [OF s, of w] same s(8) show ?thesis
    by (simp add: new_events_def)
qed

theorem placed_order_row_and_response_witness:
  "responses_in (new_events idle_world (place_order ok_env example_body idle_world)) =
     [(200, OrderPlacedBody ''Order placed successfully!'' 7)] \<and>
   orders (store (place_order ok_env example_body idle_world)) =
     [\<lparr>o_id = 7, o_user_phone = JStr ''555'', o_total_amount = JNum 9.99,
       o_status = JStr ''Processing'', o_payment_method = JStr ''COD'',
       o_shipping_address = JStr ''X'', o_created_at = 100\<rparr>]"
proof -
  have ok: "statuses idle_world (place_order ok_env example_body idle_world) = [200]"
    by (simp add: place_order_def ops examples body_field_def order_item_def
        statuses_def new_events_def)
  have ph: "js_get (body_field example_body ''customer'') ''phone'' = Some (JStr ''555'')"
    and ad: "js_get (body_field example_body ''customer'') ''address'' = Some (JStr ''X'')"
    by (simp_all add: body_field_def examples)
  from placed_order_row_and_response [OF ok ph ad] show ?thesis
    by (simp add: body_field_def examples)
qed

section \<open>The customer upsert\<close>

lemma upsert_user_phones:
  "map u_phone (upsert_user p n a us) =
     (if p \<in> set (map u_phone us) then map u_phone us else map u_phone us @ [p])"
  by (induction us) (auto simp add: upsert_user_def)

lemma upsert_user_distinct:
  "distinct (map u_phone us) \<Longrightarrow> distinct (map u_phone (upsert_user p n a us))"
  by (simp add: upsert_user_phones)

lemma upsert_user_present:
  "distinct (map u_phone us) \<Longrightarrow> p \<in> set (map u_phone us) \<Longrightarrow>
   filter (\<lambda>u. u_phone u = p)
     (map (\<lambda>u. if u_phone u = p then u\<lparr>u_name := n, u_city := a\<rparr> else u) us) =
     [\<lparr>u_phone = p, u_name = n, u_city = a\<rparr>]"
proof (induction us)
  case Nil
  then show ?case by simp
next
  case (Cons u us)
  show ?case
  proof (cases "u_phone u = p")
    case True
    with Cons.prems have "p \<notin> set (map u_phone us)" by auto
    then have "filter (\<lambda>u. u_phone u = p)
        (map (\<lambda>u. if u_phone u = p then u\<lparr>u_name := n, u_city := a\<rparr> else u) us) = []"
      by (induction us) auto
    with True show ?thesis by (cases u) simp
  next
    case False
    with Cons show ?thesis by auto
  qed
qed

lemma upsert_user_row:
  assumes "distinct (map u_phone us)"
  shows "filter (\<lambda>u. u_phone u = p) (upsert_user p n a us) =
           [\<lparr>u_phone = p, u_name = n, u_city = a\<rparr>]"
proof (cases "p \<in> set (map u_phone us)")
  case True
  with assms show ?thesis by (simp add: upsert_user_def upsert_user_present del: set_map)
next
  case False
  then have "filter (\<lambda>u. u_phone u = p) us = []"
    by (induction us) auto
  with False show ?thesis by (simp add: upsert_user_def)
qed

lemma placed_order_users:
  assumes "statuses w (place_order env body w) = [200]"
    and "js_get (body_field body ''customer'') ''phone'' = Some ph"
    and "js_get (body_field body ''customer'') ''name'' = Some nm"
    and "js_get (body_field body ''customer'') ''address'' = Some ad"
  shows "users (store (place_order env body w)) = upsert_user ph nm ad (users (store w))"
proof -
  from assms(1) obtain ph' nm' ad' r1 oid rows r3 where s:
      "passes_validation body" "conn_err env = None" "begin_err env = None"
      "js_get (body_field body ''customer'') ''phone'' = Some ph'"
      "js_get (body_field body ''customer'') ''name'' = Some nm'"
      "js_get (body_field body ''customer'') ''address'' = Some ad'"
      "user_res env = Inr r1" "order_res env = Inr oid"
      "items_map (body_field body ''items'') (order_item oid) = Some rows"
      "items_res env = Inr r3" "commit_err env = None"
    by (rule success_inversion)
  from s(4-6) assms(2-4) have same: "ph' = ph" "nm' = nm" "ad' = ad" by simp_all
  from place_order_success [OF s, of w] same show ?thesis by simp
qed

text \<open>
  C4. Two orders placed one after the other with the same phone, on a \<^verbatim>\<open>users\<close> table
  whose phones are distinct (the primary key): afterwards the table has exactly one row
  with that phone, it holds the name and the address of the second order, and the
  phones are still distinct.
\<close>

theorem same_phone_one_customer_row:
  assumes "distinct (map u_phone (users (store w0)))"
    and "w1 = place_order env1 body1 w0" and "statuses w0 w1 = [200]"
    and "w2 = place_order env2 body2 w1" and "statuses w1 w2 = [200]"
    and "js_get (body_field body1 ''customer'') ''phone'' = Some ph"
    and "js_get (body_field body2 ''customer'') ''phone'' = Some ph"
    and "js_get (body_field body2 ''customer'') ''name'' = Some nm"
    and "js_get (body_field body2 ''customer'') ''address'' = Some ad"
  shows "filter (\<lambda>u. u_phone u = ph) (users (store w2)) =
           [\<lparr>u_phone = ph, u_name = nm, u_city = ad\<rparr>] \<and>
         distinct (map u_phone (users (store w2)))"
proof -
  from assms(3) [unfolded assms(2)] have "truthy (body_field body1 ''customer'')"
    by (rule success_inversion) (simp add: passes_validation_def)
  then obtain nm1 ad1 where
    "js_get (body_field body1 ''customer'') ''name'' = Some nm1"
    "js_get (body_field body1 ''customer'') ''address'' = Some ad1"
    using truthy_js_get by metis
  with assms(2,3,6) have "users (store w1) = upsert_user ph nm1 ad1 (users (store w0))"
    by (simp add: placed_order_users)
  with assms(1) have d1: "distinct (map u_phone (users (store w1)))"
    by (simp add: upsert_user_distinct)
  from assms(4,5,7,8,9) have "users (store w2) = upsert_user ph nm ad (users (store w1))"
    by (simp add: placed_order_users)
  with d1 show ?thesis
    by (simp add: upsert_user_row upsert_user_distinct)
qed


lemma example_placed: "statuses w (place_order ok_env example_body w) = [200]"
  by (simp add: place_order_def ops examples body_field_def order_item_def
      statuses_def new_events_def)

lemma second_placed: "statuses w (place_order ok_env second_body w) = [200]"
  by (simp add: place_order_def ops ok_env_def second_body_def body_field_def order_item_def
      statuses_def new_events_def)

theorem same_phone_one_customer_row_witness:
  "filter (\<lambda>u. u_phone u = JStr ''555'')
     (users (store (place_order ok_env second_body
                      (place_order ok_env example_body idle_world)))) =
     [\<lparr>u_phone = JStr ''555'', u_name = JStr ''B'', u_city = JStr ''Y''\<rparr>]"
proof -
  have d: "distinct (map u_phone (users (store idle_world)))"
    by (simp add: examples)
  have p1: "js_get (body_field example_body ''customer'') ''phone'' = Some (JStr ''555'')"
    by (simp add: body_field_def examples)
  have p2: "js_get (body_field second_body ''customer'') ''phone'' = Some (JStr ''555'')"
    and n2: "js_get (body_field second_body ''customer'') ''name'' = Some (JStr ''B'')"
    and a2: "js_get (body_field second_body ''customer'') ''address'' = Some (JStr ''Y'')"
    by (simp_all add: body_field_def second_body_def)
  from same_phone_one_customer_row [OF d refl example_placed refl second_placed p1 p2 n2 a2]
  show ?thesis by simp
qed

section \<open>Orders and order items are only added\<close>

text \<open>
  C9. Whatever the request and whatever the data store answers, the committed
  \<^verbatim>\<open>orders\<close> and \<^verbatim>\<open>order_items\<close> tables after the handler ran begin with the
  tables as they were before: no row that existed is changed or removed. Every
  statement the handler issues against one of these two tables is an insert.
\<close>

theorem orders_and_items_only_grow:
  "prefix (orders (store w)) (orders (store (place_order env body w))) \<and>
   prefix (order_items (store w)) (order_items (store (place_order env body w))) \<and>
   (\<forall>st \<in> set (statements (new_events w (place_order env body w))).
      stmt_table st \<in> {Orders, OrderItems} \<longrightarrow> kind_of st = Insert)"
proof (cases rule: place_order_cases [where body = body and env = env])
  case Invalid
  then show ?thesis by (simp add: place_order_invalid new_events_def)
next
  case (Conn e)
  then show ?thesis by (simp add: place_order_conn_fail new_events_def)
next
  case (Begin e)
  then show ?thesis by (simp add: place_order_begin_fail new_events_def)
next
  case (User ph nm ad e)
  then show ?thesis by (simp add: place_order_user_fail new_events_def)
next
  case (Order ph nm ad r1 e)
  then show ?thesis by (simp add: place_order_order_fail new_events_def)
next
  case (Throw ph nm ad r1 oid)
  then show ?thesis by (simp add: place_order_throw new_events_def)
next
  case (Items ph nm ad r1 oid rows e)
  then show ?thesis by (simp add: place_order_items_fail new_events_def)
next
  case (Commit ph nm ad r1 oid rows r3 e)
  then show ?thesis by (simp add: place_order_commit_fail new_events_def)
next
  case (Success ph nm ad r1 oid rows r3)
  then show ?thesis by (simp add: place_order_success new_events_def)
qed

theorem orders_and_items_only_grow_witness:
  "orders (store (place_order ok_env example_body busy_world)) =
     [old_order,
      \<lparr>o_id = 7, o_user_phone = JStr ''555'', o_total_amount = JNum 9.99,
       o_status = JStr ''Processing'', o_payment_method = JStr ''COD'',
       o_shipping_address = JStr ''X'', o_created_at = 100\<rparr>] \<and>
   prefix [old_order] (orders (store (place_order ok_env example_body busy_world))) \<and>
   kind_of (OrderSql (JStr ''555'') (JNum 9.99) (JStr ''Processing'') (JStr ''COD'') (JStr ''X''))
     = Insert"
  using orders_and_items_only_grow [of busy_world ok_env example_body]
  by (simp add: place_order_def ops examples body_field_def order_item_def busy_world_def
      new_events_def)

section \<open>What validation lets through\<close>

lemma absent_field_undefined: "map_of body k = None \<Longrightarrow> body_field body k = JUndefined"
  by (simp add: body_field_def)

lemma absent_property_undefined: "map_of fs k = None \<Longrightarrow> js_get (JObj fs) k = Some JUndefined"
  by simp

text \<open>
  C10. A request whose \<^verbatim>\<open>customer\<close> is truthy and whose \<^verbatim>\<open>items\<close> is truthy with a
  \<^verbatim>\<open>length\<close> other than 0 is never answered 400: the handler asks the pool for a
  connection, and once the connection is there and the transaction has begun it issues
  the customer upsert with whatever \<^verbatim>\<open>customer.phone\<close>, \<^verbatim>\<open>customer.name\<close> and
  \<^verbatim>\<open>customer.address\<close> read, and after a successful upsert the order insert with
  whatever \<^verbatim>\<open>total\<close> and \<^verbatim>\<open>paymentMethod\<close> read. A field or property that is absent
  reads as \<^verbatim>\<open>undefined\<close> (the two lemmas above) and is bound as it is.
\<close>

theorem validation_checks_presence_only:
  assumes "truthy (body_field body ''customer'')"
    and "truthy (body_field body ''items'')"
    and "js_get (body_field body ''items'') ''length'' \<noteq> Some (JNum 0)"
  shows "400 \<notin> set (statuses w (place_order env body w)) \<and>
         (\<exists>rest. new_events w (place_order env body w) = GetConnection # rest) \<and>
         (conn_err env = None \<and> begin_err env = None \<longrightarrow>
            (\<exists>ph nm ad rest.
               js_get (body_field body ''customer'') ''phone'' = Some ph \<and>
               js_get (body_field body ''customer'') ''name'' = Some nm \<and>
               js_get (body_field body ''customer'') ''address'' = Some ad \<and>
               new_events w (place_order env body w) =
                 GetConnection # BeginTransaction # Query (UserSql ph nm ad) # rest \<and>
               (\<forall>r. user_res env = Inr r \<longrightarrow>
                  (\<exists>rest'. rest =
                     Query (OrderSql ph (body_field body ''total'') (JStr ''Processing'')
                              (body_field body ''paymentMethod'') ad) # rest'))))"
proof -
  from assms have valid: "passes_validation body"
    by (simp add: passes_validation_def)
  show ?thesis
  proof (cases rule: place_order_cases [where body = body and env = env])
    case Invalid
    with valid show ?thesis by simp
  next
    case (Conn e)
    then show ?thesis by (simp add: place_order_conn_fail new_events_def statuses_def)
  next
    case (Begin e)
    then show ?thesis by (simp add: place_order_begin_fail new_events_def statuses_def)
  next
    case (User ph nm ad e)
    then show ?thesis by (simp add: place_order_user_fail new_events_def statuses_def)
  next
    case (Order ph nm ad r1 e)
    then show ?thesis by (simp add: place_order_order_fail new_events_def statuses_def)
  next
    case (Throw ph nm ad r1 oid)
    then show ?thesis by (simp add: place_order_throw new_events_def statuses_def)
  next
    case (Items ph nm ad r1 oid rows e)
    then show ?thesis by (simp add: place_order_items_fail new_events_def statuses_def)
  next
    case (Commit ph nm ad r1 oid rows r3 e)
    then show ?thesis by (simp add: place_order_commit_fail new_events_def statuses_def)
  next
    case (Success ph nm ad r1 oid rows r3)
    then show ?thesis by (simp add: place_order_success new_events_def statuses_def)
  qed
qed

theorem validation_checks_presence_only_witness:
  "new_events idle_world
     (place_order ok_env [(''customer'', JObj []), (''items'', JArr [JObj []])] idle_world) =
     [GetConnection, BeginTransaction,
      Query (UserSql JUndefined JUndefined JUndefined),
      Query (OrderSql JUndefined JUndefined (JStr ''Processing'') JUndefined JUndefined),
      Query (ItemsSql [\<lparr>i_order_id = JNum 7, i_product_name = JUndefined,
                        i_price = JUndefined, i_quantity = JNum 1\<rparr>]),
      Commit, Release, Respond 200 (OrderPlacedBody ''Order placed successfully!'' 7)]"
  using validation_checks_presence_only
    [of "[(''customer'', JObj []), (''items'', JArr [JObj []])]" idle_world ok_env]
  by (simp add: place_order_def ops examples body_field_def order_item_def new_events_def)


section \<open>The product list\<close>

lemma descending_rev_sort_key:
  fixes f :: "'a \<Rightarrow> nat"
  shows "sorted_wrt (\<lambda>a b. f b \<le> f a) (rev (sort_key f xs))"
proof -
  have "sorted (map f (sort_key f xs))" by (rule sorted_sort_key)
  then have "sorted_wrt (\<lambda>a b. f a \<le> f b) (sort_key f xs)"
    by (simp add: sorted_wrt_map)
  then show ?thesis by (simp add: sorted_wrt_rev)
qed

lemma select_products_all: "mset (select_products T) = mset (products T)"
  by (simp add: select_products_def)

lemma select_products_descending:
  "sorted_wrt (\<lambda>a b. p_id b \<le> p_id a) (select_products T)"
  unfolding select_products_def by (rule descending_rev_sort_key)

text \<open>
  C8. When the query succeeds the handler answers 200 with a list that holds every row
  of \<^verbatim>\<open>products\<close>, each as often as the table does and no other, in descending order
  of \<^verbatim>\<open>id\<close>. When the query fails with message \<open>e\<close> the only answer is 500 with
  \<^verbatim>\<open>{error: e}\<close>. The tables are not changed.
\<close>

theorem list_products_all_descending:
  "(outcome = None \<longrightarrow>
      (\<exists>rows. new_events w (list_products outcome w) =
                 [Query ProductsSql, Respond 200 (ProductsBody rows)] \<and>
               mset rows = mset (products (store w)) \<and>
               sorted_wrt (\<lambda>a b. p_id b \<le> p_id a) rows)) \<and>
   (\<forall>e. outcome = Some e \<longrightarrow>
      new_events w (list_products outcome w) =
        [Query ProductsSql, Respond 500 (ErrorBody e)]) \<and>
   store (list_products outcome w) = store w"
proof (cases outcome)
  case None
  then have "new_events w (list_products outcome w) =
      [Query ProductsSql, Respond 200 (ProductsBody (select_products (store w)))]"
    and "store (list_products outcome w) = store w"
    by (simp_all add: list_products_def ops new_events_def)
  with None show ?thesis
    using select_products_all select_products_descending by auto
next
  case (Some e)
  then show ?thesis
    by (simp add: list_products_def ops new_events_def)
qed

theorem list_products_all_descending_witness:
  "new_events shop_world (list_products None shop_world) =
     [Query ProductsSql,
      Respond 200 (ProductsBody
        [\<lparr>p_id = 5, p_cols = [(''name'', JStr ''Polish'')]\<rparr>,
         \<lparr>p_id = 2, p_cols = [(''name'', JStr ''Wax'')]\<rparr>,
         \<lparr>p_id = 1, p_cols = [(''name'', JStr ''Sponge'')]\<rparr>])] \<and>
   new_events shop_world (list_products (Some ''gone'') shop_world) =
     [Query ProductsSql, Respond 500 (ErrorBody ''gone'')]"
  using list_products_all_descending [of None shop_world]
    list_products_all_descending [of "Some ''gone''" shop_world]
  by (simp add: list_products_def ops new_events_def select_products_def shop_world_def
      catalogue_def)

section \<open>A customer with their orders\<close>

lemma select_user_none:
  "p \<notin> set (map u_phone (users T)) \<Longrightarrow> select_user p T = []"
  by (auto simp add: select_user_def filter_empty_conv)

lemma filter_find:
  "find P xs = Some x \<Longrightarrow> \<exists>rest. filter P xs = x # rest"
  by (induction xs) (auto split: if_splits)

lemma select_user_first:
  "find (\<lambda>u. u_phone u = p) (users T) = Some u \<Longrightarrow> \<exists>rest. select_user p T = u # rest"
  unfolding select_user_def by (rule filter_find)

lemma select_orders_all:
  "mset (select_orders p T) = mset (filter (\<lambda>oo. o_user_phone oo = p) (orders T))"
  by (simp add: select_orders_def)

lemma select_orders_descending:
  "sorted_wrt (\<lambda>a b. o_created_at b \<le> o_created_at a) (select_orders p T)"
  unfolding select_orders_def by (rule descending_rev_sort_key)

text \<open>
  C7. With no \<^verbatim>\<open>users\<close> row for the phone and a lookup that succeeds, the handler
  answers 404 with \<^verbatim>\<open>{message: "User not found"}\<close> and issues no second query. With
  a row \<open>u\<close> for the phone (the first one the table has) it issues the second query and,
  when that succeeds, answers 200 with \<^verbatim>\<open>{user: u, orders: os}\<close>, where \<open>os\<close> holds
  exactly the \<^verbatim>\<open>orders\<close> rows of that phone in descending order of \<^verbatim>\<open>created_at\<close>.
  A query that fails with message \<open>e\<close> is answered 500 with \<^verbatim>\<open>{error: e}\<close>. The
  tables are not changed.
\<close>

theorem get_user_outcomes:
  "(user_outcome = None \<and> JStr phone \<notin> set (map u_phone (users (store w))) \<longrightarrow>
      new_events w (get_user user_outcome orders_outcome phone w) =
        [Query (SelectUserSql (JStr phone)), Respond 404 (MessageBody ''User not found'')]) \<and>
   (\<forall>u. user_outcome = None \<and> orders_outcome = None \<and>
        find (\<lambda>u. u_phone u = JStr phone) (users (store w)) = Some u \<longrightarrow>
      (\<exists>os. new_events w (get_user user_outcome orders_outcome phone w) =
               [Query (SelectUserSql (JStr phone)), Query (SelectOrdersSql (JStr phone)),
                Respond 200 (UserBody u os)] \<and>
             mset os = mset (filter (\<lambda>oo. o_user_phone oo = JStr phone) (orders (store w))) \<and>
             sorted_wrt (\<lambda>a b. o_created_at b \<le> o_created_at a) os)) \<and>
   (\<forall>e. user_outcome = Some e \<longrightarrow>
      new_events w (get_user user_outcome orders_outcome phone w) =
        [Query (SelectUserSql (JStr phone)), Respond 500 (ErrorBody e)]) \<and>
   (\<forall>e u. user_outcome = None \<and> orders_outcome = Some e \<and>
        find (\<lambda>u. u_phone u = JStr phone) (users (store w)) = Some u \<longrightarrow>
      new_events w (get_user user_outcome orders_outcome phone w) =
        [Query (SelectUserSql (JStr phone)), Query (SelectOrdersSql (JStr phone)),
         Respond 500 (ErrorBody e)]) \<and>
   store (get_user user_outcome orders_outcome phone w) = store w"
proof -
  have missing: "user_outcome = None \<and> JStr phone \<notin> set (map u_phone (users (store w))) \<longrightarrow>
      new_events w (get_user user_outcome orders_outcome phone w) =
        [Query (SelectUserSql (JStr phone)), Respond 404 (MessageBody ''User not found'')]"
    by (auto simp add: get_user_def ops new_events_def select_user_none simp del: set_map)
  have found: "\<forall>u. user_outcome = None \<and> orders_outcome = None \<and>
        find (\<lambda>u. u_phone u = JStr phone) (users (store w)) = Some u \<longrightarrow>
      (\<exists>os. new_events w (get_user user_outcome orders_outcome phone w) =
               [Query (SelectUserSql (JStr phone)), Query (SelectOrdersSql (JStr phone)),
                Respond 200 (UserBody u os)] \<and>
             mset os = mset (filter (\<lambda>oo. o_user_phone oo = JStr phone) (orders (store w))) \<and>
             sorted_wrt (\<lambda>a b. o_created_at b \<le> o_created_at a) os)"
  proof (intro allI impI, elim conjE)
    fix u
    assume ok: "user_outcome = None" "orders_outcome = None"
      and "find (\<lambda>u. u_phone u = JStr phone) (users (store w)) = Some u"
    then obtain rest where "select_user (JStr phone) (store w) = u # rest"
      using select_user_first by blast
    with ok have "new_events w (get_user user_outcome orders_outcome phone w) =
        [Query (SelectUserSql (JStr phone)), Query (SelectOrdersSql (JStr phone)),
         Respond 200 (UserBody u (select_orders (JStr phone) (store w)))]"
      by (simp add: get_user_def ops new_events_def)
    then show "\<exists>os. new_events w (get_user user_outcome orders_outcome phone w) =
               [Query (SelectUserSql (JStr phone)), Query (SelectOrdersSql (JStr phone)),
                Respond 200 (UserBody u os)] \<and>
             mset os = mset (filter (\<lambda>oo. o_user_phone oo = JStr phone) (orders (store w))) \<and>
             sorted_wrt (\<lambda>a b. o_created_at b \<le> o_created_at a) os"
      using select_orders_all select_orders_descending by blast
  qed
  have user_error: "\<forall>e. user_outcome = Some e \<longrightarrow>
      new_events w (get_user user_outcome orders_outcome phone w) =
        [Query (SelectUserSql (JStr phone)), Respond 500 (ErrorBody e)]"
    by (simp add: get_user_def ops new_events_def)
  have orders_error: "\<forall>e u. user_outcome = None \<and> orders_outcome = Some e \<and>
        find (\<lambda>u. u_phone u = JStr phone) (users (store w)) = Some u \<longrightarrow>
      new_events w (get_user user_outcome orders_outcome phone w) =
        [Query (SelectUserSql (JStr phone)), Query (SelectOrdersSql (JStr phone)),
         Respond 500 (ErrorBody e)]"
  proof (intro allI impI, elim conjE)
    fix e u
    assume ok: "user_outcome = None" "orders_outcome = Some e"
      and "find (\<lambda>u. u_phone u = JStr phone) (users (store w)) = Some u"
    then obtain rest where "select_user (JStr phone) (store w) = u # rest"
      using select_user_first by blast
    with ok show "new_events w (get_user user_outcome orders_outcome phone w) =
        [Query (SelectUserSql (JStr phone)), Query (SelectOrdersSql (JStr phone)),
         Respond 500 (ErrorBody e)]"
      by (simp add: get_user_def ops new_events_def)
  qed
  have frame: "store (get_user user_outcome orders_outcome phone w) = store w"
    by (cases user_outcome; cases orders_outcome;
        cases "select_user (JStr phone) (store w)") (simp_all add: get_user_def ops)
  from missing found user_error orders_error frame show ?thesis by blast
qed

theorem get_user_outcomes_witness:
  "new_events shop_world (get_user None None ''000'' shop_world) =
     [Query (SelectUserSql (JStr ''000'')), Respond 404 (MessageBody ''User not found'')] \<and>
   new_events shop_world (get_user None None ''555'' shop_world) =
     [Query (SelectUserSql (JStr ''555'')), Query (SelectOrdersSql (JStr ''555'')),
      Respond 200
        (UserBody \<lparr>u_phone = JStr ''555'', u_name = JStr ''A'', u_city = JStr ''X''\<rparr>
           [old_order\<lparr>o_id := 9, o_created_at := 80\<rparr>, old_order])] \<and>
   new_events shop_world (get_user (Some ''gone'') None ''555'' shop_world) =
     [Query (SelectUserSql (JStr ''555'')), Respond 500 (ErrorBody ''gone'')] \<and>
   new_events shop_world (get_user None (Some ''late'') ''555'' shop_world) =
     [Query (SelectUserSql (JStr ''555'')), Query (SelectOrdersSql (JStr ''555'')),
      Respond 500 (ErrorBody ''late'')]"
  using get_user_outcomes [of None "''000''" shop_world None]
    get_user_outcomes [of None "''555''" shop_world None]
    get_user_outcomes [of "Some ''gone''" "''555''" shop_world None]
    get_user_outcomes [of None "''555''" shop_world "Some ''late''"]
  by (simp add: get_user_def ops new_events_def select_user_def select_orders_def
      shop_world_def old_order_def)

end
